theory Spec2Isabelle
  imports Main "HOL-Library.Sublist"
begin

section \<open>Python values used by the validation engine\<close>

text \<open>
  Strings are byte lists: a Python \<open>str\<close> is held as its UTF-8 encoding. The engine only
  concatenates strings (\<open>str.format\<close>, \<open>str.join\<close>) and compares parameter names, and
  UTF-8 encoding commutes with concatenation and is injective, so nothing is lost.

  A dict is an association list in insertion order with distinct keys. The value bound to
  the keyword \<open>params\<close> is, by the annotation \<open>params: dict\<close> of every operation and by
  \<open>kwargs.get\<close>, a dict or \<open>None\<close>.
\<close>

type_synonym 'v pydict = "(string \<times> 'v) list"

datatype 'v pyval = PyNone | PyDict "'v pydict"

text \<open>\<open>k in d\<close> for a dict \<open>d\<close>: membership among the keys.\<close>

definition dict_contains :: "'v pydict \<Rightarrow> string \<Rightarrow> bool" where
  "dict_contains d k = (k \<in> set (map fst d))"

text \<open>\<open>d.get(k)\<close>: the value, or \<open>None\<close> when the key is absent.\<close>

definition dict_get :: "(string \<times> 'v pyval) list \<Rightarrow> string \<Rightarrow> 'v pyval" where
  "dict_get d k = (case map_of d k of None \<Rightarrow> PyNone | Some v \<Rightarrow> v)"

text \<open>
  \<open>template.format(arg)\<close> for a template with one replacement field \<open>{}\<close> and no other
  brace, which is what both \<open>error_message\<close> templates are: the field is replaced by the
  argument.
\<close>

fun str_format :: "string \<Rightarrow> string \<Rightarrow> string" where
  "str_format [] arg = []"
| "str_format [c] arg = [c]"
| "str_format (c # d # t) arg =
     (if c = CHR ''{'' \<and> d = CHR ''}'' then arg @ t else c # str_format (d # t) arg)"

text \<open>\<open>sep.join(xs)\<close>.\<close>

fun str_join :: "string \<Rightarrow> string list \<Rightarrow> string" where
  "str_join sep [] = []"
| "str_join sep [x] = x"
| "str_join sep (x # y # ys) = x @ sep @ str_join sep (y # ys)"

section \<open>required\_params.py: the rule classes\<close>

datatype py_error = MissingParams "string list" | TypeError | AttributeError

text \<open>
  The keyword arguments \<open>**parameters\<close> of the decorator: one optional entry per rule.
  \<open>None\<close> is an absent key (\<open>parameters.get\<close> gives \<open>None\<close>).
\<close>

record parameters =
  kw_required_params :: "string list option"
  kw_or_params :: "string list list option"

text \<open>
  \<open>BaseCheck\<close>: the instance attributes \<open>params\<close>, \<open>__errors\<close> and
  \<open>_error_status_code\<close>.
\<close>

record 'v BaseCheck =
  params :: "'v pydict"
  private_errors :: "string list"
  private_error_status_code :: int

text \<open>
  \<open>self.params = params or ()\<close>: \<open>None\<close> and the empty dict are falsy and give the
  empty tuple, written \<open>[]\<close> here (no key is a member of either).
\<close>

definition params_or_empty :: "'v pyval \<Rightarrow> 'v pydict" where
  "params_or_empty p = (case p of PyNone \<Rightarrow> [] | PyDict d \<Rightarrow> (if d = [] then [] else d))"

definition BaseCheck_init :: "'v pyval \<Rightarrow> 'v BaseCheck" where
  "BaseCheck_init p =
     \<lparr>params = params_or_empty p, private_errors = [], private_error_status_code = 400\<rparr>"

text \<open>The property \<open>errors\<close>: the getter returns a tuple of the list, the setter appends.\<close>

definition errors :: "('v, 'z) BaseCheck_scheme \<Rightarrow> string list" where
  "errors self = private_errors self"

definition errors_setter ::
  "string \<Rightarrow> ('v, 'z) BaseCheck_scheme \<Rightarrow> ('v, 'z) BaseCheck_scheme" where
  "errors_setter val self = self\<lparr>private_errors := private_errors self @ [val]\<rparr>"

definition error_status_code :: "('v, 'z) BaseCheck_scheme \<Rightarrow> int" where
  "error_status_code self = private_error_status_code self"

definition error_status_code_setter ::
  "int \<Rightarrow> ('v, 'z) BaseCheck_scheme \<Rightarrow> ('v, 'z) BaseCheck_scheme" where
  "error_status_code_setter val self = self\<lparr>private_error_status_code := val\<rparr>"

subsection \<open>RequiredParamsCheck\<close>

record 'v RequiredParamsCheck = "'v BaseCheck" +
  required_params :: "string list option"

definition RequiredParamsCheck_error_message :: string where
  "RequiredParamsCheck_error_message =
  [CHR 0xD0, CHR 0x9E, CHR 0xD1, CHR 0x82, CHR 0xD1, CHR 0x81, CHR 0xD1, CHR 0x83,
   CHR 0xD1, CHR 0x82, CHR 0xD1, CHR 0x81, CHR 0xD1, CHR 0x82, CHR 0xD0, CHR 0xB2,
   CHR 0xD1, CHR 0x83, CHR 0xD0, CHR 0xB5, CHR 0xD1, CHR 0x82, CHR 0x20, CHR 0xD0,
   CHR 0xBE, CHR 0xD0, CHR 0xB1, CHR 0xD1, CHR 0x8F, CHR 0xD0, CHR 0xB7, CHR 0xD0,
   CHR 0xB0, CHR 0xD1, CHR 0x82, CHR 0xD0, CHR 0xB5, CHR 0xD0, CHR 0xBB, CHR 0xD1,
   CHR 0x8C, CHR 0xD0, CHR 0xBD, CHR 0xD1, CHR 0x8B, CHR 0xD0, CHR 0xB9, CHR 0x20,
   CHR 0xD0, CHR 0xBF, CHR 0xD0, CHR 0xB0, CHR 0xD1, CHR 0x80, CHR 0xD0, CHR 0xB0,
   CHR 0xD0, CHR 0xBC, CHR 0xD0, CHR 0xB5, CHR 0xD1, CHR 0x82, CHR 0xD1, CHR 0x80,
   CHR 0x20,
   CHR ''{'', CHR ''}'']"

definition RequiredParamsCheck_init :: "'v pyval \<Rightarrow> parameters \<Rightarrow> 'v RequiredParamsCheck" where
  "RequiredParamsCheck_init p parameters =
     BaseCheck.extend (BaseCheck_init p)
       (RequiredParamsCheck.fields (kw_required_params parameters))"

definition RequiredParamsCheck_check_param :: "'v RequiredParamsCheck \<Rightarrow> string \<Rightarrow> bool" where
  "RequiredParamsCheck_check_param self required_param =
     (if dict_contains (params self) required_param then True else False)"

text \<open>The \<open>for\<close> loop of \<open>check_params\<close>, the instance threaded through.\<close>

fun RequiredParamsCheck_loop ::
  "string list \<Rightarrow> 'v RequiredParamsCheck \<Rightarrow> 'v RequiredParamsCheck" where
  "RequiredParamsCheck_loop [] self = self"
| "RequiredParamsCheck_loop (required_param # rest) self =
     RequiredParamsCheck_loop rest
       (if \<not> RequiredParamsCheck_check_param self required_param
        then errors_setter (str_format RequiredParamsCheck_error_message required_param) self
        else self)"

text \<open>
  \<open>check_params\<close> returns its result and the instance as it leaves it. \<open>not
  self.required_params\<close> holds for \<open>None\<close> and for the empty sequence.
\<close>

definition RequiredParamsCheck_check_params ::
  "'v RequiredParamsCheck \<Rightarrow> string list option \<times> 'v RequiredParamsCheck" where
  "RequiredParamsCheck_check_params self =
     (case required_params self of
        None \<Rightarrow> (None, self)
      | Some rs \<Rightarrow>
          if rs = [] then (None, self)
          else (let self' = RequiredParamsCheck_loop rs self in (Some (errors self'), self')))"

subsection \<open>OrParamsCheck\<close>

record 'v OrParamsCheck = "'v BaseCheck" +
  or_params :: "string list list option"

definition OrParamsCheck_error_message :: string where
  "OrParamsCheck_error_message =
  [CHR 0xD0, CHR 0x9E, CHR 0xD1, CHR 0x82, CHR 0xD1, CHR 0x81, CHR 0xD1, CHR 0x83,
   CHR 0xD1, CHR 0x82, CHR 0xD0, CHR 0xB2, CHR 0xD1, CHR 0x82, CHR 0xD0, CHR 0xB2,
   CHR 0xD1, CHR 0x83, CHR 0xD0, CHR 0xB5, CHR 0xD1, CHR 0x82, CHR 0x20, CHR 0xD0,
   CHR 0xBA, CHR 0xD0, CHR 0xB0, CHR 0xD0, CHR 0xBA, CHR 0x20, CHR 0xD0, CHR 0xBC,
   CHR 0xD0, CHR 0xB8, CHR 0xD0, CHR 0xBD, CHR 0xD0, CHR 0xB8, CHR 0xD0, CHR 0xBC,
   CHR 0xD1, CHR 0x83, CHR 0xD0, CHR 0xBC, CHR 0x20, CHR 0xD0, CHR 0xBE, CHR 0xD0,
   CHR 0xB4, CHR 0xD0, CHR 0xB8, CHR 0xD0, CHR 0xBD, CHR 0x20, CHR 0xD0, CHR 0xB8,
   CHR 0xD0, CHR 0xB7, CHR 0x20, CHR 0xD0, CHR 0xBE, CHR 0xD0, CHR 0xB1, CHR 0xD1,
   CHR 0x8F, CHR 0xD0, CHR 0xB7, CHR 0xD0, CHR 0xB0, CHR 0xD1, CHR 0x82, CHR 0xD0,
   CHR 0xB5, CHR 0xD0, CHR 0xBB, CHR 0xD1, CHR 0x8C, CHR 0xD0, CHR 0xBD, CHR 0xD1,
   CHR 0x8B, CHR 0xD1, CHR 0x85, CHR 0x20, CHR 0xD0, CHR 0xBF, CHR 0xD0, CHR 0xB0,
   CHR 0xD1, CHR 0x80, CHR 0xD0, CHR 0xB0, CHR 0xD0, CHR 0xBC, CHR 0xD0, CHR 0xB5,
   CHR 0xD1, CHR 0x82, CHR 0xD1, CHR 0x80, CHR 0xD0, CHR 0xBE, CHR 0xD0, CHR 0xB2,
   CHR 0x20,
   CHR ''{'', CHR ''}'']"

definition OrParamsCheck_init :: "'v pyval \<Rightarrow> parameters \<Rightarrow> 'v OrParamsCheck" where
  "OrParamsCheck_init p parameters =
     BaseCheck.extend (BaseCheck_init p) (OrParamsCheck.fields (kw_or_params parameters))"

definition OrParamsCheck_check_param :: "'v OrParamsCheck \<Rightarrow> string list \<Rightarrow> bool" where
  "OrParamsCheck_check_param self grp = list_ex (\<lambda>param. dict_contains (params self) param) grp"

text \<open>
  The loop of \<open>check_params\<close>. The source also prints the accumulated tuple after each
  append; standard output is outside this model.
\<close>

fun OrParamsCheck_loop :: "string list list \<Rightarrow> 'v OrParamsCheck \<Rightarrow> 'v OrParamsCheck" where
  "OrParamsCheck_loop [] self = self"
| "OrParamsCheck_loop (grp # rest) self =
     OrParamsCheck_loop rest
       (if \<not> OrParamsCheck_check_param self grp
        then errors_setter (str_format OrParamsCheck_error_message (str_join '', '' grp)) self
        else self)"

definition OrParamsCheck_check_params ::
  "'v OrParamsCheck \<Rightarrow> string list option \<times> 'v OrParamsCheck" where
  "OrParamsCheck_check_params self =
     (case or_params self of
        None \<Rightarrow> (None, self)
      | Some gs \<Rightarrow>
          if gs = [] then (None, self)
          else (let self' = OrParamsCheck_loop gs self in (Some (errors self'), self')))"

section \<open>required\_params.py: the decorator\<close>

text \<open>
  A registered rule class, as \<open>set_errors\<close> uses it: instantiate with the parameters of
  the call and the configuration, run \<open>check_params\<close>, keep the result.
\<close>

type_synonym 'v checker_cls = "'v pyval \<Rightarrow> parameters \<Rightarrow> string list option"

definition RequiredParamsCheck_cls :: "'v checker_cls" where
  "RequiredParamsCheck_cls p parameters =
     fst (RequiredParamsCheck_check_params (RequiredParamsCheck_init p parameters))"

definition OrParamsCheck_cls :: "'v checker_cls" where
  "OrParamsCheck_cls p parameters =
     fst (OrParamsCheck_check_params (OrParamsCheck_init p parameters))"

text \<open>\<open>BaseCheck.__subclasses__()\<close>: the direct subclasses, in definition order.\<close>

definition BaseCheck_subclasses :: "'v checker_cls list" where
  "BaseCheck_subclasses = [RequiredParamsCheck_cls, OrParamsCheck_cls]"

text \<open>
  The loop of \<open>set_errors\<close> over a registry, with the list \<open>errors\<close> as accumulator.
  \<open>if e := ...\<close> holds for a result that is neither \<open>None\<close> nor empty.
\<close>

fun set_errors_loop ::
  "'v checker_cls list \<Rightarrow> parameters \<Rightarrow> 'v pyval \<Rightarrow> string list \<Rightarrow> string list" where
  "set_errors_loop [] parameters p errs = errs"
| "set_errors_loop (checker_cls # rest) parameters p errs =
     (case checker_cls p parameters of
        None \<Rightarrow> set_errors_loop rest parameters p errs
      | Some e \<Rightarrow>
          if e = [] then set_errors_loop rest parameters p errs
          else set_errors_loop rest parameters p (errs @ e))"

definition set_errors :: "parameters \<Rightarrow> 'v pyval \<Rightarrow> string list" where
  "set_errors parameters p = set_errors_loop BaseCheck_subclasses parameters p []"

text \<open>
  The wrapped operation. An invocation is its positional arguments and its keyword
  arguments; the wrapped function may raise and may have effects on a state \<open>'s\<close>,
  which validation does not touch.
\<close>

type_synonym 'v kwargs = "(string \<times> 'v pyval) list"

type_synonym ('a, 'v, 's, 'r) operation =
  "'a list \<Rightarrow> 'v kwargs \<Rightarrow> 's \<Rightarrow> (py_error + 'r) \<times> 's"

definition wrapper ::
  "parameters \<Rightarrow> ('a, 'v, 's, 'r) operation \<Rightarrow> ('a, 'v, 's, 'r) operation" where
  "wrapper parameters func args kwargs s =
     (let errs = set_errors parameters (dict_get kwargs ''params'') in
      if errs \<noteq> [] then (Inl (MissingParams errs), s) else func args kwargs s)"

definition check_params ::
  "parameters \<Rightarrow> ('a, 'v, 's, 'r) operation \<Rightarrow> ('a, 'v, 's, 'r) operation" where
  "check_params parameters func = wrapper parameters func"

section \<open>vk/methods.py: the catalog of remote operations\<close>

definition base_url :: string where
  "base_url = ''https://api.vk.com/method/''"

definition version :: string where
  "version = ''5.131''"

definition CREATE_COMMENT :: string where
  "CREATE_COMMENT = ''wall.createComment''"

definition GET_COMMENT :: string where
  "GET_COMMENT = ''wall.getComment''"

definition GET_COMMENTS :: string where
  "GET_COMMENTS = ''wall.getComments''"

definition GET_LIKES :: string where
  "GET_LIKES = ''wall.getLikes''"

definition GET_REPOSTS :: string where
  "GET_REPOSTS = ''wall.getReposts''"

definition GET_CONVERSATIONS :: string where
  "GET_CONVERSATIONS = ''messages.getConversations''"

definition GET_HISTORY :: string where
  "GET_HISTORY = ''messages.getHistory''"

definition GET_POSTS :: string where
  "GET_POSTS = ''wall.get''"

definition GET_USERS_INFO :: string where
  "GET_USERS_INFO = ''users.get''"

definition PUBLISH_POST :: string where
  "PUBLISH_POST = ''wall.post''"

definition DELETE_POST :: string where
  "DELETE_POST = ''wall.delete''"

definition SEND_MESSAGE :: string where
  "SEND_MESSAGE = ''messages.send''"

definition GET_CALLBACK_CONFIRMATION_CODE :: string where
  "GET_CALLBACK_CONFIRMATION_CODE = ''groups.getCallbackConfirmationCode''"

definition ADD_CALLBACK_SERVER :: string where
  "ADD_CALLBACK_SERVER = ''groups.addCallbackServer''"

definition GET_CALLBACK_SERVERS :: string where
  "GET_CALLBACK_SERVERS = ''groups.getCallbackServers''"

definition UPLOAD_PHOTO :: string where
  "UPLOAD_PHOTO = ''photos.getWallUploadServer''"

definition SAVE_PHOTO :: string where
  "SAVE_PHOTO = ''photos.saveWallPhoto''"

definition SAVE_VIDEO :: string where
  "SAVE_VIDEO = ''video.save''"

text \<open>The class attribute \<open>__http_methods\<close>, a dict from operation name to HTTP verb.\<close>

definition http_methods :: "(string \<times> string) list" where
  "http_methods =
     [(CREATE_COMMENT, ''POST''),
      (GET_COMMENT, ''GET''),
      (GET_COMMENTS, ''GET''),
      (GET_LIKES, ''GET''),
      (GET_REPOSTS, ''GET''),
      (GET_CONVERSATIONS, ''GET''),
      (GET_HISTORY, ''GET''),
      (GET_POSTS, ''GET''),
      (GET_USERS_INFO, ''GET''),
      (PUBLISH_POST, ''POST''),
      (DELETE_POST, ''POST''),
      (SEND_MESSAGE, ''POST''),
      (GET_CALLBACK_CONFIRMATION_CODE, ''GET''),
      (ADD_CALLBACK_SERVER, ''POST''),
      (GET_CALLBACK_SERVERS, ''GET''),
      (UPLOAD_PHOTO, ''POST''),
      (SAVE_PHOTO, ''POST''),
      (SAVE_VIDEO, ''POST'')]"

definition get_http_method :: "string \<Rightarrow> string option" where
  "get_http_method rpc_method = map_of http_methods rpc_method"

definition has_method :: "string \<Rightarrow> bool" where
  "has_method method = (method \<in> set (map fst http_methods))"

text \<open>The values a request parameter takes: \<open>None\<close>, an integer or a string.\<close>

datatype atom = AtomNone | AtomInt int | AtomStr string

text \<open>
  What the transport hands back: \<open>response.json()\<close> (\<open>None\<close> when it raises
  \<open>JSONDecodeError\<close>) and \<open>response.status_code\<close>.
\<close>

record 'j response =
  resp_json :: "'j option"
  resp_status_code :: int

text \<open>
  The library functions the client calls, taken as parameters: \<open>urllib.parse.urljoin\<close>,
  \<open>PreparedRequest.prepare_url\<close> followed by reading \<open>url\<close>, and \<open>requests.request\<close>,
  which acts on the network \<open>'n\<close>.
\<close>

record ('j, 'n) library =
  urljoin :: "string \<Rightarrow> string \<Rightarrow> string"
  prepare_url :: "string \<Rightarrow> atom pydict \<Rightarrow> string"
  request :: "string option \<Rightarrow> string \<Rightarrow> 'n \<Rightarrow> 'j response \<times> 'n"

definition get_url :: "('j, 'n) library \<Rightarrow> string \<Rightarrow> atom pydict \<Rightarrow> string" where
  "get_url lib method ps =
     (let url = urljoin lib base_url method;
          url = (if \<not> suffix ''/'' url then url @ ''/'' else url)
      in prepare_url lib url ps)"

section \<open>vk/vk.py: the client\<close>

text \<open>
  \<open>VkApiResponse\<close>. A body is the parsed JSON of the transport's response, or the dict
  \<open>{'response': {'error': msg}}\<close> the client builds itself, held as \<open>ErrorBody msg\<close>.
\<close>

datatype 'j body = ErrorBody string | JsonBody 'j

record 'j VkApiResponse =
  body :: "'j body"
  status_code :: int

record VkApi =
  token :: string
  owner_id :: string
  group_token :: "string option"

text \<open>\<open>d[k] = v\<close> and \<open>d.update(e)\<close> on a dict in insertion order.\<close>

fun dict_set :: "'v pydict \<Rightarrow> string \<Rightarrow> 'v \<Rightarrow> 'v pydict" where
  "dict_set [] k v = [(k, v)]"
| "dict_set ((k', v') # d) k v = (if k' = k then (k, v) # d else (k', v') # dict_set d k v)"

definition dict_update :: "'v pydict \<Rightarrow> 'v pydict \<Rightarrow> 'v pydict" where
  "dict_update d e = foldl (\<lambda>acc (k, v). dict_set acc k v) d e"

definition VkApi_get_url ::
  "('j, 'n) library \<Rightarrow> VkApi \<Rightarrow> string \<Rightarrow> atom pydict \<Rightarrow> string" where
  "VkApi_get_url lib self api_method ps =
     (let p = ps;
          tok = (if prefix ''messages'' api_method \<or> prefix ''groups'' api_method
                 then (case group_token self of None \<Rightarrow> AtomNone | Some t \<Rightarrow> AtomStr t)
                 else AtomStr (token self));
          p = dict_update p
                (dict_update
                   [(''owner_id'', AtomStr (owner_id self)), (''access_token'', tok),
                    (''v'', AtomStr version)]
                   ps)
      in get_url lib api_method p)"

definition method_not_found_message :: string where
  "method_not_found_message =
  [CHR 0xD0, CHR 0x9C, CHR 0xD0, CHR 0xB5, CHR 0xD1, CHR 0x82, CHR 0xD0, CHR 0xBE,
   CHR 0xD0, CHR 0xB4, CHR 0x20, CHR 0xD0, CHR 0xBD, CHR 0xD0, CHR 0xB5, CHR 0x20,
   CHR 0xD1, CHR 0x81, CHR 0xD1, CHR 0x83, CHR 0xD1, CHR 0x89, CHR 0xD0, CHR 0xB5,
   CHR 0xD1, CHR 0x81, CHR 0xD1, CHR 0x82, CHR 0xD0, CHR 0xB2, CHR 0xD1, CHR 0x83,
   CHR 0xD0, CHR 0xB5, CHR 0xD1, CHR 0x82]"

definition invalid_json_message :: string where
  "invalid_json_message =
  [CHR 0xD0, CHR 0xA1, CHR 0xD0, CHR 0xB5, CHR 0xD1, CHR 0x80, CHR 0xD0, CHR 0xB2,
   CHR 0xD0, CHR 0xB5, CHR 0xD1, CHR 0x80, CHR 0x20, CHR 0xD0, CHR 0xBD, CHR 0xD0,
   CHR 0xB5, CHR 0x20, CHR 0xD0, CHR 0xB2, CHR 0xD0, CHR 0xB5, CHR 0xD1, CHR 0x80,
   CHR 0xD0, CHR 0xBD, CHR 0xD1, CHR 0x83, CHR 0xD0, CHR 0xBB, CHR 0x20, CHR 0xD0,
   CHR 0xB2, CHR 0xD0, CHR 0xB0, CHR 0xD0, CHR 0xBB, CHR 0xD0, CHR 0xB8, CHR 0xD0,
   CHR 0xB4, CHR 0xD0, CHR 0xBD, CHR 0xD1, CHR 0x8B, CHR 0xD0, CHR 0xB9, CHR 0x20,
   CHR 0x6A, CHR 0x73, CHR 0x6F, CHR 0x6E, CHR 0x2E]"

text \<open>
  \<open>_send_api_request\<close>. With \<open>params\<close> bound to \<open>None\<close>, \<open>params.copy()\<close> in
  \<open>_get_url\<close> raises \<open>AttributeError\<close>.
\<close>

definition VkApi_send_api_request ::
  "('j, 'n) library \<Rightarrow> VkApi \<Rightarrow> string \<Rightarrow> atom pyval \<Rightarrow> 'n \<Rightarrow>
     (py_error + 'j VkApiResponse) \<times> 'n" where
  "VkApi_send_api_request lib self api_method ps net =
     (if \<not> has_method api_method
      then (Inr \<lparr>body = ErrorBody method_not_found_message, status_code = 404\<rparr>, net)
      else
        (case ps of
           PyNone \<Rightarrow> (Inl AttributeError, net)
         | PyDict d \<Rightarrow>
             (let url = VkApi_get_url lib self api_method d;
                  (response, net') = request lib (get_http_method api_method) url net
              in case resp_json response of
                   None \<Rightarrow>
                     (Inr \<lparr>body = ErrorBody invalid_json_message, status_code = 502\<rparr>, net')
                 | Some response_body \<Rightarrow>
                     (Inr \<lparr>body = JsonBody response_body,
                           status_code = resp_status_code response\<rparr>, net'))))"

text \<open>
  An argument of a call of a method of \<open>VkApi\<close>: the instance, or a dict or \<open>None\<close>.
\<close>

datatype vkarg = ArgSelf VkApi | ArgVal "atom pyval"

text \<open>
  Binding the call \<open>func(*args, **kwargs)\<close> to the signature \<open>(self, params)\<close>: a
  keyword that is no parameter, a parameter given twice, a missing parameter and a third
  positional argument each raise \<open>TypeError\<close>.
\<close>

definition bind_self_params ::
  "vkarg list \<Rightarrow> atom kwargs \<Rightarrow> py_error + (vkarg \<times> vkarg)" where
  "bind_self_params args kwargs =
     (if list_ex (\<lambda>k. k \<noteq> ''self'' \<and> k \<noteq> ''params'') (map fst kwargs) then Inl TypeError
      else
        (case args of
           [] \<Rightarrow>
             (case (map_of kwargs ''self'', map_of kwargs ''params'') of
                (Some a, Some b) \<Rightarrow> Inr (ArgVal a, ArgVal b)
              | _ \<Rightarrow> Inl TypeError)
         | [a] \<Rightarrow>
             (if map_of kwargs ''self'' \<noteq> None then Inl TypeError
              else (case map_of kwargs ''params'' of
                      None \<Rightarrow> Inl TypeError
                    | Some b \<Rightarrow> Inr (a, ArgVal b)))
         | [a, b] \<Rightarrow> (if kwargs \<noteq> [] then Inl TypeError else Inr (a, b))
         | _ \<Rightarrow> Inl TypeError))"

text \<open>
  The body shared by the operations: \<open>return self._send_api_request(NAME, params=params)\<close>.
  An argument of the wrong kind has no attribute \<open>_send_api_request\<close>, or no \<open>copy\<close>.
\<close>

definition method_body ::
  "('j, 'n) library \<Rightarrow> string \<Rightarrow> (vkarg, atom, 'n, 'j VkApiResponse) operation" where
  "method_body lib api_method args kwargs net =
     (case bind_self_params args kwargs of
        Inl e \<Rightarrow> (Inl e, net)
      | Inr (ArgSelf self, ArgVal ps) \<Rightarrow> VkApi_send_api_request lib self api_method ps net
      | Inr (ArgSelf self, ArgSelf other) \<Rightarrow>
          (if \<not> has_method api_method
           then (Inr \<lparr>body = ErrorBody method_not_found_message, status_code = 404\<rparr>, net)
           else (Inl AttributeError, net))
      | Inr (ArgVal v, b) \<Rightarrow> (Inl AttributeError, net))"

definition get_posts ::
  "('j, 'n) library \<Rightarrow> (vkarg, atom, 'n, 'j VkApiResponse) operation" where
  "get_posts lib = method_body lib GET_POSTS"

definition publish_post ::
  "('j, 'n) library \<Rightarrow> (vkarg, atom, 'n, 'j VkApiResponse) operation" where
  "publish_post lib =
     check_params \<lparr>kw_required_params = None, kw_or_params = Some [[''message'', ''attachments'']]\<rparr>
       (method_body lib PUBLISH_POST)"

definition delete_post ::
  "('j, 'n) library \<Rightarrow> (vkarg, atom, 'n, 'j VkApiResponse) operation" where
  "delete_post lib =
     check_params \<lparr>kw_required_params = Some [''post_id''], kw_or_params = None\<rparr>
       (method_body lib DELETE_POST)"

definition get_comments ::
  "('j, 'n) library \<Rightarrow> (vkarg, atom, 'n, 'j VkApiResponse) operation" where
  "get_comments lib =
     check_params \<lparr>kw_required_params = None, kw_or_params = Some [[''post_id'', ''comment_id'']]\<rparr>
       (method_body lib GET_COMMENTS)"

section \<open>Concrete inputs for the worked scenarios\<close>

text \<open>A wrapped function that only counts its executions: the state is the counter.\<close>

definition counting_operation :: "(unit, atom, nat, unit) operation" where
  "counting_operation args kwargs n = (Inr (), Suc n)"

text \<open>
  A transport that always answers with an unparseable body, and counts the requests sent.
\<close>

definition garbled_library :: "(unit, nat) library" where
  "garbled_library =
     \<lparr>urljoin = (\<lambda>b m. b @ m), prepare_url = (\<lambda>u ps. u),
      request = (\<lambda>m u n. (\<lparr>resp_json = None, resp_status_code = 200\<rparr>, Suc n))\<rparr>"

definition example_api :: VkApi where
  "example_api = \<lparr>token = ''t'', owner_id = ''-1'', group_token = None\<rparr>"

section \<open>Basic facts about the rule instances\<close>

lemma params_or_empty_simps:
  "params_or_empty PyNone = []" "params_or_empty (PyDict P) = P"
  by (simp_all add: params_or_empty_def)


lemma errors_setter_simps:
  "errors (errors_setter val self) = errors self @ [val]"
  "params (errors_setter val self) = params self"
  "error_status_code (errors_setter val self) = error_status_code self"
  by (simp_all add: errors_def errors_setter_def error_status_code_def)

lemma errors_setter_foldl:
  "errors (foldl (\<lambda>inst val. errors_setter val inst) self vals) = errors self @ vals"
  by (induction vals arbitrary: self) (simp_all add: errors_setter_simps)

lemma RequiredParamsCheck_loop_errors:
  "errors (RequiredParamsCheck_loop rs self) =
     errors self @ map (str_format RequiredParamsCheck_error_message)
       (filter (\<lambda>n. \<not> dict_contains (params self) n) rs)"
proof (induction rs arbitrary: self)
  case Nil
  show ?case by simp
next
  case (Cons r rs)
  show ?case
    by (simp add: Cons.IH errors_setter_simps RequiredParamsCheck_check_param_def)
qed

lemma OrParamsCheck_loop_errors:
  "errors (OrParamsCheck_loop gs self) =
     errors self @ map (\<lambda>g. str_format OrParamsCheck_error_message (str_join '', '' g))
       (filter (\<lambda>g. \<not> list_ex (dict_contains (params self)) g) gs)"
proof (induction gs arbitrary: self)
  case Nil
  show ?case by simp
next
  case (Cons g gs)
  show ?case
    by (simp add: Cons.IH errors_setter_simps OrParamsCheck_check_param_def)
qed

lemma RequiredParamsCheck_init_simps:
  "params (RequiredParamsCheck_init p parameters) = params_or_empty p"
  "errors (RequiredParamsCheck_init p parameters) = []"
  "error_status_code (RequiredParamsCheck_init p parameters) = 400"
  "required_params (RequiredParamsCheck_init p parameters) = kw_required_params parameters"
  by (simp_all add: RequiredParamsCheck_init_def BaseCheck_init_def BaseCheck.extend_def
      RequiredParamsCheck.fields_def errors_def error_status_code_def)

lemma OrParamsCheck_init_simps:
  "params (OrParamsCheck_init p parameters) = params_or_empty p"
  "errors (OrParamsCheck_init p parameters) = []"
  "error_status_code (OrParamsCheck_init p parameters) = 400"
  "or_params (OrParamsCheck_init p parameters) = kw_or_params parameters"
  by (simp_all add: OrParamsCheck_init_def BaseCheck_init_def BaseCheck.extend_def
      OrParamsCheck.fields_def errors_def error_status_code_def)

lemma RequiredParamsCheck_cls_eq:
  "RequiredParamsCheck_cls p parameters =
     (case kw_required_params parameters of
        None \<Rightarrow> None
      | Some R \<Rightarrow>
          if R = [] then None
          else Some (map (str_format RequiredParamsCheck_error_message)
                 (filter (\<lambda>n. \<not> dict_contains (params_or_empty p) n) R)))"
  by (simp add: RequiredParamsCheck_cls_def RequiredParamsCheck_check_params_def
      RequiredParamsCheck_init_simps RequiredParamsCheck_loop_errors Let_def
      split: option.split)

lemma OrParamsCheck_cls_eq:
  "OrParamsCheck_cls p parameters =
     (case kw_or_params parameters of
        None \<Rightarrow> None
      | Some G \<Rightarrow>
          if G = [] then None
          else Some (map (\<lambda>g. str_format OrParamsCheck_error_message (str_join '', '' g))
                 (filter (\<lambda>g. \<not> list_ex (dict_contains (params_or_empty p)) g) G)))"
  by (simp add: OrParamsCheck_cls_def OrParamsCheck_check_params_def
      OrParamsCheck_init_simps OrParamsCheck_loop_errors Let_def
      split: option.split)

lemma set_errors_loop_concat:
  "set_errors_loop registry parameters p errs =
     errs @ concat (map (\<lambda>cls. case cls p parameters of None \<Rightarrow> [] | Some e \<Rightarrow> e) registry)"
  by (induction registry arbitrary: errs) (simp_all split: option.split)

lemma set_errors_eq:
  "set_errors parameters p =
     map (str_format RequiredParamsCheck_error_message)
       (filter (\<lambda>n. \<not> dict_contains (params_or_empty p) n)
          (case kw_required_params parameters of None \<Rightarrow> [] | Some R \<Rightarrow> R)) @
     map (\<lambda>g. str_format OrParamsCheck_error_message (str_join '', '' g))
       (filter (\<lambda>g. \<not> list_ex (dict_contains (params_or_empty p)) g)
          (case kw_or_params parameters of None \<Rightarrow> [] | Some G \<Rightarrow> G))"
  by (simp add: set_errors_def set_errors_loop_concat BaseCheck_subclasses_def
      RequiredParamsCheck_cls_eq OrParamsCheck_cls_eq split: option.split)

section \<open>The wrapped operation\<close>

text \<open>
  C1. For a wrapped operation with a fixed configuration and any invocation: when
  \<open>set_errors\<close> on the value of the keyword \<open>params\<close> is not empty, \<open>MissingParams\<close>
  carrying that whole list is raised, the state is the one before the call and the outcome
  is the same for any other wrapped function, so the function has not run; when it is
  empty, the outcome is exactly that of the wrapped function on the original arguments.
\<close>

theorem wrapper_validates_before_call:
  "(set_errors parameters (dict_get kwargs ''params'') \<noteq> [] \<longrightarrow>
      wrapper parameters func args kwargs s =
        (Inl (MissingParams (set_errors parameters (dict_get kwargs ''params''))), s))
   \<and> (set_errors parameters (dict_get kwargs ''params'') \<noteq> [] \<longrightarrow>
      wrapper parameters func args kwargs s = wrapper parameters func' args kwargs s)
   \<and> (set_errors parameters (dict_get kwargs ''params'') = [] \<longrightarrow>
      wrapper parameters func args kwargs s = func args kwargs s)"
  by (simp add: wrapper_def Let_def)

text \<open>
  Scenario E on the counting operation: with \<open>post_id\<close> required and an empty
  dict the counter stays at 0; with \<open>post_id\<close> supplied the operation runs once.
\<close>

theorem wrapper_validates_before_call_witness:
  "set_errors \<lparr>kw_required_params = Some [''post_id''], kw_or_params = None\<rparr>
     (dict_get [(''params'', PyDict ([] :: atom pydict))] ''params'') \<noteq> []
   \<and> wrapper \<lparr>kw_required_params = Some [''post_id''], kw_or_params = None\<rparr>
       counting_operation [] [(''params'', PyDict [])] 0 =
     (Inl (MissingParams [str_format RequiredParamsCheck_error_message ''post_id'']), 0)
   \<and> set_errors \<lparr>kw_required_params = Some [''post_id''], kw_or_params = None\<rparr>
       (dict_get [(''params'', PyDict [(''post_id'', AtomInt 7)])] ''params'') = []
   \<and> wrapper \<lparr>kw_required_params = Some [''post_id''], kw_or_params = None\<rparr>
       counting_operation [] [(''params'', PyDict [(''post_id'', AtomInt 7)])] 0 =
     (Inr (), 1)"
proof -
  let ?cfg = "\<lparr>kw_required_params = Some [''post_id''], kw_or_params = None\<rparr>"
  have failing: "set_errors ?cfg (dict_get [(''params'', PyDict ([] :: atom pydict))] ''params'') =
      [str_format RequiredParamsCheck_error_message ''post_id'']"
    by (simp add: set_errors_eq dict_get_def params_or_empty_simps dict_contains_def)
  have passing: "set_errors ?cfg (dict_get [(''params'', PyDict [(''post_id'', AtomInt 7)])] ''params'') = []"
    by (simp add: set_errors_eq dict_get_def params_or_empty_simps dict_contains_def)
  show ?thesis
    using wrapper_validates_before_call
        [of ?cfg "[(''params'', PyDict [])]" counting_operation "[]" 0 counting_operation]
      wrapper_validates_before_call
        [of ?cfg "[(''params'', PyDict [(''post_id'', AtomInt 7)])]" counting_operation "[]" 0
          counting_operation]
    by (simp add: failing passing counting_operation_def)
qed

section \<open>The two rules\<close>

text \<open>
  C2. For every dict \<open>P\<close> and every sequence \<open>R\<close> of required names, the check of
  \<open>RequiredParamsCheck\<close> yields one message for each entry of \<open>R\<close> that is no key of
  \<open>P\<close>, in the order of \<open>R\<close>, and nothing else: its return value is \<open>None\<close> for the
  empty \<open>R\<close> and that tuple otherwise, and what it adds to the aggregate is that list in
  both cases (empty when every name is present).
\<close>

theorem RequiredParamsCheck_reports_absent_names:
  "RequiredParamsCheck_cls (PyDict P) \<lparr>kw_required_params = Some R, kw_or_params = G\<rparr> =
     (if R = [] then None
      else Some (map (str_format RequiredParamsCheck_error_message)
             (filter (\<lambda>n. \<not> dict_contains P n) R)))
   \<and> set_errors_loop [RequiredParamsCheck_cls]
        \<lparr>kw_required_params = Some R, kw_or_params = G\<rparr> (PyDict P) [] =
       map (str_format RequiredParamsCheck_error_message)
         (filter (\<lambda>n. \<not> dict_contains P n) R)"
  by (simp add: RequiredParamsCheck_cls_eq params_or_empty_simps)

text \<open>
  C3. For every dict \<open>P\<close> and every sequence \<open>G\<close> of groups, the check of
  \<open>OrParamsCheck\<close> yields one message for each group none of whose members is a key of
  \<open>P\<close>, in the order of \<open>G\<close>, and none for a group with a member present. For the
  empty dict and any two groups, those of Scenario D among them, the aggregate has exactly
  two messages, one per group, in declaration order.
\<close>

theorem OrParamsCheck_reports_missing_groups:
  "OrParamsCheck_cls (PyDict P) \<lparr>kw_required_params = R, kw_or_params = Some G\<rparr> =
     (if G = [] then None
      else Some (map (\<lambda>g. str_format OrParamsCheck_error_message (str_join '', '' g))
             (filter (\<lambda>g. \<not> list_ex (dict_contains P) g) G)))
   \<and> set_errors_loop [OrParamsCheck_cls]
        \<lparr>kw_required_params = R, kw_or_params = Some G\<rparr> (PyDict P) [] =
       map (\<lambda>g. str_format OrParamsCheck_error_message (str_join '', '' g))
         (filter (\<lambda>g. \<not> list_ex (dict_contains P) g) G)
   \<and> set_errors \<lparr>kw_required_params = None, kw_or_params = Some [g1, g2]\<rparr> (PyDict []) =
       [str_format OrParamsCheck_error_message (str_join '', '' g1),
        str_format OrParamsCheck_error_message (str_join '', '' g2)]
   \<and> set_errors
        \<lparr>kw_required_params = None,
         kw_or_params = Some [[''peer_id'', ''user_id''], [''message'', ''attachment'']]\<rparr>
        (PyDict []) =
       [str_format OrParamsCheck_error_message ''peer_id, user_id'',
        str_format OrParamsCheck_error_message ''message, attachment'']"
  by (simp add: OrParamsCheck_cls_eq set_errors_eq params_or_empty_simps dict_contains_def
      list_ex_iff)

section \<open>The aggregate\<close>

text \<open>
  C4. \<open>set_errors\<close> runs every rule of the registry whatever the earlier rules have
  produced: from any accumulated list, the loop appends the contribution of each rule in
  registry order. With the two rules of the source the aggregate is the messages of
  \<open>RequiredParamsCheck\<close> followed by those of \<open>OrParamsCheck\<close>, each in the order of
  its own configuration. Being a function of its arguments, it is the same on every run.
\<close>

theorem set_errors_runs_every_rule_in_order:
  "set_errors_loop registry parameters p errs =
     errs @ concat (map (\<lambda>cls. case cls p parameters of None \<Rightarrow> [] | Some e \<Rightarrow> e) registry)
   \<and> set_errors parameters p =
       (case RequiredParamsCheck_cls p parameters of None \<Rightarrow> [] | Some e \<Rightarrow> e) @
       (case OrParamsCheck_cls p parameters of None \<Rightarrow> [] | Some e \<Rightarrow> e)
   \<and> set_errors parameters (PyDict P) =
       map (str_format RequiredParamsCheck_error_message)
         (filter (\<lambda>n. \<not> dict_contains P n)
            (case kw_required_params parameters of None \<Rightarrow> [] | Some R \<Rightarrow> R)) @
       map (\<lambda>g. str_format OrParamsCheck_error_message (str_join '', '' g))
         (filter (\<lambda>g. \<not> list_ex (dict_contains P) g)
            (case kw_or_params parameters of None \<Rightarrow> [] | Some G \<Rightarrow> G))"
  by (simp add: set_errors_loop_concat set_errors_def BaseCheck_subclasses_def
      RequiredParamsCheck_cls_eq OrParamsCheck_cls_eq params_or_empty_simps
      split: option.split)

text \<open>
  C5. As stated, with the English text \<open>missing required parameter post_id\<close>, the claim
  fails: the template of the source is Russian.
\<close>

theorem required_message_text_counterexample:
  "set_errors \<lparr>kw_required_params = Some [''post_id''], kw_or_params = None\<rparr>
     (PyDict ([] :: atom pydict)) \<noteq> [''missing required parameter post_id'']"
  by (simp add: set_errors_eq params_or_empty_simps dict_contains_def
      RequiredParamsCheck_error_message_def)

text \<open>
  C5, amended. For the empty dict and \<open>required_params = ['post_id']\<close> the aggregate has
  exactly one element, the template \<open>error_message\<close> of \<open>RequiredParamsCheck\<close> with
  \<open>post_id\<close> in place of its field; the text before the field is the UTF-8 encoding of
  the Russian sentence of the source (it reads "required parameter ... is missing"), and
  each required name that is absent gives that text followed by the name.
\<close>

theorem required_message_text:
  "(let text =
       [CHR 0xD0, CHR 0x9E, CHR 0xD1, CHR 0x82, CHR 0xD1, CHR 0x81, CHR 0xD1, CHR 0x83,
        CHR 0xD1, CHR 0x82, CHR 0xD1, CHR 0x81, CHR 0xD1, CHR 0x82, CHR 0xD0, CHR 0xB2,
        CHR 0xD1, CHR 0x83, CHR 0xD0, CHR 0xB5, CHR 0xD1, CHR 0x82, CHR 0x20, CHR 0xD0,
        CHR 0xBE, CHR 0xD0, CHR 0xB1, CHR 0xD1, CHR 0x8F, CHR 0xD0, CHR 0xB7, CHR 0xD0,
        CHR 0xB0, CHR 0xD1, CHR 0x82, CHR 0xD0, CHR 0xB5, CHR 0xD0, CHR 0xBB, CHR 0xD1,
        CHR 0x8C, CHR 0xD0, CHR 0xBD, CHR 0xD1, CHR 0x8B, CHR 0xD0, CHR 0xB9, CHR 0x20,
        CHR 0xD0, CHR 0xBF, CHR 0xD0, CHR 0xB0, CHR 0xD1, CHR 0x80, CHR 0xD0, CHR 0xB0,
        CHR 0xD0, CHR 0xBC, CHR 0xD0, CHR 0xB5, CHR 0xD1, CHR 0x82, CHR 0xD1, CHR 0x80,
        CHR 0x20]
    in set_errors \<lparr>kw_required_params = Some [''post_id''], kw_or_params = None\<rparr> (PyDict [])
         = [text @ ''post_id'']
       \<and> str_format RequiredParamsCheck_error_message name = text @ name
       \<and> RequiredParamsCheck_cls (PyDict P)
            \<lparr>kw_required_params = Some (r # R), kw_or_params = G\<rparr> =
          Some (map (\<lambda>n. text @ n) (filter (\<lambda>n. \<not> dict_contains P n) (r # R))))"
proof -
  have fmt: "str_format RequiredParamsCheck_error_message n =
       [CHR 0xD0, CHR 0x9E, CHR 0xD1, CHR 0x82, CHR 0xD1, CHR 0x81, CHR 0xD1, CHR 0x83,
        CHR 0xD1, CHR 0x82, CHR 0xD1, CHR 0x81, CHR 0xD1, CHR 0x82, CHR 0xD0, CHR 0xB2,
        CHR 0xD1, CHR 0x83, CHR 0xD0, CHR 0xB5, CHR 0xD1, CHR 0x82, CHR 0x20, CHR 0xD0,
        CHR 0xBE, CHR 0xD0, CHR 0xB1, CHR 0xD1, CHR 0x8F, CHR 0xD0, CHR 0xB7, CHR 0xD0,
        CHR 0xB0, CHR 0xD1, CHR 0x82, CHR 0xD0, CHR 0xB5, CHR 0xD0, CHR 0xBB, CHR 0xD1,
        CHR 0x8C, CHR 0xD0, CHR 0xBD, CHR 0xD1, CHR 0x8B, CHR 0xD0, CHR 0xB9, CHR 0x20,
        CHR 0xD0, CHR 0xBF, CHR 0xD0, CHR 0xB0, CHR 0xD1, CHR 0x80, CHR 0xD0, CHR 0xB0,
        CHR 0xD0, CHR 0xBC, CHR 0xD0, CHR 0xB5, CHR 0xD1, CHR 0x82, CHR 0xD1, CHR 0x80,
        CHR 0x20] @ n" for n
    by (simp add: RequiredParamsCheck_error_message_def)
  show ?thesis
    unfolding Let_def
    by (simp add: fmt set_errors_eq RequiredParamsCheck_cls_eq params_or_empty_simps
        dict_contains_def)
qed

text \<open>
  C6. A rule whose configuration key is absent, or whose configured sequence is empty,
  returns \<open>None\<close> for every parameter value and adds nothing to the aggregate, which is
  then what the other rule alone produces. Scenario C: for \<open>{comment_id: 5}\<close> with
  \<open>or_params = [[post_id, comment_id]]\<close> and \<open>required_params = []\<close> the aggregate is
  empty.
\<close>

theorem unconfigured_rule_is_noop:
  "RequiredParamsCheck_cls p \<lparr>kw_required_params = None, kw_or_params = G\<rparr> = None
   \<and> RequiredParamsCheck_cls p \<lparr>kw_required_params = Some [], kw_or_params = G\<rparr> = None
   \<and> OrParamsCheck_cls p \<lparr>kw_required_params = R, kw_or_params = None\<rparr> = None
   \<and> OrParamsCheck_cls p \<lparr>kw_required_params = R, kw_or_params = Some []\<rparr> = None
   \<and> set_errors \<lparr>kw_required_params = None, kw_or_params = G\<rparr> p =
       set_errors_loop [OrParamsCheck_cls] \<lparr>kw_required_params = None, kw_or_params = G\<rparr> p []
   \<and> set_errors \<lparr>kw_required_params = Some [], kw_or_params = G\<rparr> p =
       set_errors_loop [OrParamsCheck_cls] \<lparr>kw_required_params = Some [], kw_or_params = G\<rparr> p []
   \<and> set_errors \<lparr>kw_required_params = R, kw_or_params = None\<rparr> p =
       set_errors_loop [RequiredParamsCheck_cls] \<lparr>kw_required_params = R, kw_or_params = None\<rparr> p []
   \<and> set_errors \<lparr>kw_required_params = R, kw_or_params = Some []\<rparr> p =
       set_errors_loop [RequiredParamsCheck_cls] \<lparr>kw_required_params = R, kw_or_params = Some []\<rparr> p []
   \<and> set_errors
        \<lparr>kw_required_params = Some [], kw_or_params = Some [[''post_id'', ''comment_id'']]\<rparr>
        (PyDict [(''comment_id'', AtomInt 5)]) = []"
  by (simp add: RequiredParamsCheck_cls_eq OrParamsCheck_cls_eq set_errors_def
      BaseCheck_subclasses_def params_or_empty_simps dict_contains_def split: option.split)

section \<open>The client's failures\<close>

lemmas catalog_defs =
  http_methods_def CREATE_COMMENT_def GET_COMMENT_def GET_COMMENTS_def GET_LIKES_def
  GET_REPOSTS_def GET_CONVERSATIONS_def GET_HISTORY_def GET_POSTS_def GET_USERS_INFO_def
  PUBLISH_POST_def DELETE_POST_def SEND_MESSAGE_def GET_CALLBACK_CONFIRMATION_CODE_def
  ADD_CALLBACK_SERVER_def GET_CALLBACK_SERVERS_def UPLOAD_PHOTO_def SAVE_PHOTO_def
  SAVE_VIDEO_def

text \<open>
  C7. For an operation name outside the catalog \<open>_send_api_request\<close> returns a response
  with status 404, raising nothing and leaving the network as it was, whatever the
  parameters and the transport. For a catalogued name and a transport response whose body
  does not parse it returns a response with status 502. A validation failure of a decorated
  operation is raised as \<open>MissingParams\<close> and is no response.
\<close>

theorem send_api_request_failures:
  "(\<not> has_method api_method \<longrightarrow>
      VkApi_send_api_request lib self api_method ps net =
        (Inr \<lparr>body = ErrorBody method_not_found_message, status_code = 404\<rparr>, net))
   \<and> (has_method api_method \<and>
       resp_json (fst (request lib (get_http_method api_method)
                        (VkApi_get_url lib self api_method d) net)) = None \<longrightarrow>
      VkApi_send_api_request lib self api_method (PyDict d) net =
        (Inr \<lparr>body = ErrorBody invalid_json_message, status_code = 502\<rparr>,
         snd (request lib (get_http_method api_method)
                (VkApi_get_url lib self api_method d) net)))
   \<and> (set_errors parameters (dict_get kwargs ''params'') \<noteq> [] \<longrightarrow>
      check_params parameters (method_body lib api_method) args kwargs net =
        (Inl (MissingParams (set_errors parameters (dict_get kwargs ''params''))), net))"
  by (simp add: VkApi_send_api_request_def check_params_def wrapper_def Let_def
      split: prod.split)

text \<open>
  The name \<open>wall.edit\<close> is not catalogued and sends no request; \<open>wall.delete\<close> over the
  garbled transport sends one request and gives 502; \<open>delete_post\<close> without \<open>post_id\<close>
  raises and sends none.
\<close>

theorem send_api_request_failures_witness:
  "\<not> has_method ''wall.edit''
   \<and> VkApi_send_api_request garbled_library example_api ''wall.edit'' PyNone 0 =
       (Inr \<lparr>body = ErrorBody method_not_found_message, status_code = 404\<rparr>, 0)
   \<and> has_method DELETE_POST
   \<and> resp_json (fst (request garbled_library (get_http_method DELETE_POST)
        (VkApi_get_url garbled_library example_api DELETE_POST [(''post_id'', AtomInt 1)])
        0)) = None
   \<and> VkApi_send_api_request garbled_library example_api DELETE_POST
        (PyDict [(''post_id'', AtomInt 1)]) 0 =
       (Inr \<lparr>body = ErrorBody invalid_json_message, status_code = 502\<rparr>, 1)
   \<and> set_errors \<lparr>kw_required_params = Some [''post_id''], kw_or_params = None\<rparr>
        (dict_get [(''params'', PyDict ([] :: atom pydict))] ''params'') \<noteq> []
   \<and> delete_post garbled_library [ArgSelf example_api] [(''params'', PyDict [])] 0 =
       (Inl (MissingParams [str_format RequiredParamsCheck_error_message ''post_id'']), 0)"
proof -
  let ?cfg = "\<lparr>kw_required_params = Some [''post_id''], kw_or_params = None\<rparr>"
  have unknown: "\<not> has_method ''wall.edit''"
    by (simp add: has_method_def catalog_defs)
  have known: "has_method DELETE_POST"
    by (simp add: has_method_def catalog_defs)
  have garbled: "resp_json (fst (request garbled_library (get_http_method DELETE_POST)
        (VkApi_get_url garbled_library example_api DELETE_POST [(''post_id'', AtomInt 1)])
        0)) = None"
    by (simp add: garbled_library_def)
  have sent: "snd (request garbled_library (get_http_method DELETE_POST)
        (VkApi_get_url garbled_library example_api DELETE_POST [(''post_id'', AtomInt 1)])
        0) = 1"
    by (simp add: garbled_library_def)
  have failing: "set_errors ?cfg (dict_get [(''params'', PyDict ([] :: atom pydict))] ''params'') =
      [str_format RequiredParamsCheck_error_message ''post_id'']"
    by (simp add: set_errors_eq dict_get_def params_or_empty_simps dict_contains_def)
  show ?thesis
    using send_api_request_failures
        [of "''wall.edit''" garbled_library example_api PyNone 0 "[(''post_id'', AtomInt 1)]"
          ?cfg "[(''params'', PyDict [])]" "[ArgSelf example_api]"]
      send_api_request_failures
        [of DELETE_POST garbled_library example_api PyNone 0 "[(''post_id'', AtomInt 1)]"
          ?cfg "[(''params'', PyDict [])]" "[ArgSelf example_api]"]
    by (simp add: unknown known garbled sent failing delete_post_def)
qed

section \<open>Determinism\<close>

text \<open>
  C8. The aggregate depends on the dict only through its set of keys: two dicts with the
  same keys, whatever their values (even of different types) and the order of their
  entries, give the same aggregate under the same configuration. \<open>set_errors\<close> takes no
  state, so two runs on the same dict and configuration agree.
\<close>

theorem set_errors_depends_on_keys_only:
  "set (map fst P) = set (map fst Q) \<Longrightarrow>
   set_errors parameters (PyDict P) = set_errors parameters (PyDict Q)"
proof -
  assume "set (map fst P) = set (map fst Q)"
  then have "dict_contains P = dict_contains Q"
    by (intro ext) (simp add: dict_contains_def)
  then show ?thesis
    by (simp add: set_errors_eq params_or_empty_simps)
qed

theorem set_errors_depends_on_keys_only_witness:
  "set (map fst [(''post_id'', AtomInt 1), (''message'', AtomStr ''hi'')]) =
     set (map fst [(''message'', True), (''post_id'', False)])
   \<and> set_errors
       \<lparr>kw_required_params = Some [''post_id'', ''owner_id''], kw_or_params = Some [[''a'', ''b'']]\<rparr>
       (PyDict [(''post_id'', AtomInt 1), (''message'', AtomStr ''hi'')]) =
     set_errors
       \<lparr>kw_required_params = Some [''post_id'', ''owner_id''], kw_or_params = Some [[''a'', ''b'']]\<rparr>
       (PyDict [(''message'', True), (''post_id'', False)])"
proof -
  have keys: "set (map fst [(''post_id'', AtomInt 1), (''message'', AtomStr ''hi'')]) =
     set (map fst [(''message'', True), (''post_id'', False)])"
    by auto
  show ?thesis
    using keys set_errors_depends_on_keys_only [OF keys] by blast
qed

section \<open>Parameters passed positionally\<close>



section \<open>The error accumulator\<close>

text \<open>
  C10. As stated, with \<open>check_params\<close> returning the full accumulated tuple of the
  instance on every call, the claim fails: for an instance of \<open>RequiredParamsCheck\<close>
  built without \<open>required_params\<close>, to which the message \<open>x\<close> has been assigned,
  the accumulated tuple is \<open>('x',)\<close> and \<open>check_params\<close> returns \<open>None\<close>.
\<close>

theorem check_params_returns_accumulated_counterexample:
  "errors (snd (RequiredParamsCheck_check_params
       (errors_setter ''x''
          (RequiredParamsCheck_init (PyDict ([] :: atom pydict))
             \<lparr>kw_required_params = None, kw_or_params = None\<rparr>)))) = [''x'']
   \<and> fst (RequiredParamsCheck_check_params
       (errors_setter ''x''
          (RequiredParamsCheck_init (PyDict ([] :: atom pydict))
             \<lparr>kw_required_params = None, kw_or_params = None\<rparr>))) = None
   \<and> fst (RequiredParamsCheck_check_params
       (errors_setter ''x''
          (RequiredParamsCheck_init (PyDict ([] :: atom pydict))
             \<lparr>kw_required_params = None, kw_or_params = None\<rparr>))) \<noteq>
     Some (errors (snd (RequiredParamsCheck_check_params
       (errors_setter ''x''
          (RequiredParamsCheck_init (PyDict ([] :: atom pydict))
             \<lparr>kw_required_params = None, kw_or_params = None\<rparr>)))))"
  by (simp add: RequiredParamsCheck_check_params_def RequiredParamsCheck_init_def
      BaseCheck_init_def BaseCheck.extend_def RequiredParamsCheck.fields_def
      errors_setter_def errors_def params_or_empty_def)

text \<open>
  C10, amended. Assigning to \<open>errors\<close> appends to the private list and the getter
  returns the whole list in append order: after any sequence of assignments it is the
  earlier messages followed by the assigned values. From any instance, \<open>check_params\<close>
  leaves the earlier messages in place as a prefix of the accumulated ones; it returns
  \<open>None\<close> when the configuration of the rule is absent or empty, and the full
  accumulated tuple otherwise. A fresh instance of the base class and of either rule has
  no message and \<open>error_status_code\<close> 400.
\<close>

theorem errors_accumulator_append_only:
  "errors (errors_setter val self) = errors self @ [val]
   \<and> errors (foldl (\<lambda>inst val. errors_setter val inst) self vals) = errors self @ vals
   \<and> prefix (errors rself) (errors (snd (RequiredParamsCheck_check_params rself)))
   \<and> prefix (errors oself) (errors (snd (OrParamsCheck_check_params oself)))
   \<and> fst (RequiredParamsCheck_check_params rself) =
       (if required_params rself = None \<or> required_params rself = Some [] then None
        else Some (errors (snd (RequiredParamsCheck_check_params rself))))
   \<and> fst (OrParamsCheck_check_params oself) =
       (if or_params oself = None \<or> or_params oself = Some [] then None
        else Some (errors (snd (OrParamsCheck_check_params oself))))
   \<and> errors (BaseCheck_init p) = [] \<and> error_status_code (BaseCheck_init p) = 400
   \<and> errors (RequiredParamsCheck_init p parameters) = []
   \<and> error_status_code (RequiredParamsCheck_init p parameters) = 400
   \<and> errors (OrParamsCheck_init p parameters) = []
   \<and> error_status_code (OrParamsCheck_init p parameters) = 400"
proof -
  have r: "prefix (errors rself) (errors (snd (RequiredParamsCheck_check_params rself)))"
    by (simp add: RequiredParamsCheck_check_params_def RequiredParamsCheck_loop_errors Let_def
        split: option.split)
  have o: "prefix (errors oself) (errors (snd (OrParamsCheck_check_params oself)))"
    by (simp add: OrParamsCheck_check_params_def OrParamsCheck_loop_errors Let_def
        split: option.split)
  have rr: "fst (RequiredParamsCheck_check_params rself) =
       (if required_params rself = None \<or> required_params rself = Some [] then None
        else Some (errors (snd (RequiredParamsCheck_check_params rself))))"
    by (simp add: RequiredParamsCheck_check_params_def Let_def split: option.split)
  have oo: "fst (OrParamsCheck_check_params oself) =
       (if or_params oself = None \<or> or_params oself = Some [] then None
        else Some (errors (snd (OrParamsCheck_check_params oself))))"
    by (simp add: OrParamsCheck_check_params_def Let_def split: option.split)
  have b: "errors (BaseCheck_init p) = [] \<and> error_status_code (BaseCheck_init p) = 400"
    by (simp add: BaseCheck_init_def errors_def error_status_code_def)
  show ?thesis
    using r o rr oo b
    by (simp add: errors_setter_simps errors_setter_foldl RequiredParamsCheck_init_simps
        OrParamsCheck_init_simps)
qed

end
